theory Spec2Isabelle
  imports Main "HOL-Library.Multiset"
begin

section \<open>The ORM layer the database manager is written against\<close>

text \<open>
  \<^verbatim>\<open>DatabaseManager\<close> (\<^verbatim>\<open>dwc_admin/database_manager.py\<close>) is a set of static methods over
  Django model managers. A table is the list of its rows; every exception the manager
  methods can meet is a value of \<open>error\<close>; a method that can raise returns
  \<open>error + result\<close>, and a method that writes also returns the table it leaves behind.
  The clock (\<^verbatim>\<open>timezone.now()\<close>) is an argument \<open>now\<close>.
\<close>

datatype error =
  DoesNotExist | MultipleObjectsReturned | IntegrityError | OverflowError | CodecError

text \<open>A \<^verbatim>\<open>datetime\<close> is a count of microseconds, the resolution Python keeps.\<close>

type_synonym datetime = int

definition timedelta_minutes :: "int \<Rightarrow> int" where
  "timedelta_minutes m = m * 60000000"

definition timedelta_seconds :: "int \<Rightarrow> int" where
  "timedelta_seconds s = s * 1000000"

text \<open>
  \<^verbatim>\<open>Model.objects.get(**lookup)\<close>: the single row matching the lookup,
  \<^verbatim>\<open>DoesNotExist\<close> when there is none, \<^verbatim>\<open>MultipleObjectsReturned\<close> when there are several.
\<close>

definition objects_get :: "('a \<Rightarrow> bool) \<Rightarrow> 'a list \<Rightarrow> error + 'a" where
  "objects_get lookup rows =
     (case filter lookup rows of
        [] \<Rightarrow> Inl DoesNotExist
      | [r] \<Rightarrow> Inr r
      | _ \<Rightarrow> Inl MultipleObjectsReturned)"





text \<open>
  \<^verbatim>\<open>Model.objects.get_or_create(**lookup, defaults=...)\<close>: the matching row and
  \<^verbatim>\<open>False\<close>, or the row it inserts and \<^verbatim>\<open>True\<close>; several matching rows raise.
\<close>

definition get_or_create ::
  "('a \<Rightarrow> bool) \<Rightarrow> 'a \<Rightarrow> 'a list \<Rightarrow> (error + 'a \<times> bool) \<times> 'a list" where
  "get_or_create lookup new_row rows =
     (case objects_get lookup rows of
        Inr r \<Rightarrow> (Inr (r, False), rows)
      | Inl DoesNotExist \<Rightarrow> (Inr (new_row, True), rows @ [new_row])
      | Inl e \<Rightarrow> (Inl e, rows))"

section \<open>Models (\<^verbatim>\<open>dwc_admin/models.py\<close>)\<close>

subsection \<open>Session\<close>

record session =
  session_key :: string
  session_profile :: int
  login_time :: datetime

text \<open>
  \<^verbatim>\<open>Session.is_active\<close>:
  \<^verbatim>\<open>threshold = timezone.now() - timedelta(minutes=30); return self.login_time > threshold\<close>
\<close>

definition Session_is_active :: "datetime \<Rightarrow> session \<Rightarrow> bool" where
  "Session_is_active now s =
     (let threshold = now - timedelta_minutes 30 in login_time s > threshold)"

subsection \<open>BannedItem\<close>

record banned_item =
  ban_type :: string
  ban_identifier :: string
  reason :: string
  banned_at :: datetime
  expires_at :: "datetime option"
  banned_by :: string

text \<open>
  \<^verbatim>\<open>BannedItem.is_active\<close>:
  \<^verbatim>\<open>if self.expires_at: return timezone.now() < self.expires_at\<close>, else \<^verbatim>\<open>True\<close>
  (a \<^verbatim>\<open>datetime\<close> is always truthy, so the test is the test for \<^verbatim>\<open>None\<close>).
\<close>

definition BannedItem_is_active :: "datetime \<Rightarrow> banned_item \<Rightarrow> bool" where
  "BannedItem_is_active now b =
     (case expires_at b of Some e \<Rightarrow> now < e | None \<Rightarrow> True)"

text \<open>The columns of \<^verbatim>\<open>unique_together = ['ban_type', 'identifier']\<close>.\<close>

definition ban_key :: "banned_item \<Rightarrow> string \<times> string" where
  "ban_key b = (ban_type b, ban_identifier b)"

text \<open>
  \<^verbatim>\<open>DatabaseManager.is_banned\<close>: the row is fetched by its composite key;
  \<^verbatim>\<open>BannedItem.DoesNotExist\<close> is caught and answered \<^verbatim>\<open>False\<close>, any other exception
  propagates.
\<close>

definition is_banned :: "datetime \<Rightarrow> banned_item list \<Rightarrow> string \<Rightarrow> string \<Rightarrow> error + bool" where
  "is_banned now banned bt ident =
     (case objects_get (\<lambda>b. ban_type b = bt \<and> ban_identifier b = ident) banned of
        Inr ban \<Rightarrow> Inr (BannedItem_is_active now ban)
      | Inl DoesNotExist \<Rightarrow> Inr False
      | Inl e \<Rightarrow> Inl e)"

subsection \<open>Console\<close>

record console =
  mac_address :: string
  console_user_id :: string
  device_name :: string
  platform :: string
  enabled :: bool
  console_registered_at :: datetime
  last_seen :: datetime

text \<open>
  \<^verbatim>\<open>DatabaseManager.is_console_enabled\<close>: \<^verbatim>\<open>Console.DoesNotExist\<close> is caught and
  answered \<^verbatim>\<open>False\<close> ("if console doesn't exist, assume not allowed").
\<close>

definition is_console_enabled :: "console list \<Rightarrow> string \<Rightarrow> error + bool" where
  "is_console_enabled consoles mac =
     (case objects_get (\<lambda>c. mac_address c = mac) consoles of
        Inr c \<Rightarrow> Inr (enabled c)
      | Inl DoesNotExist \<Rightarrow> Inr False
      | Inl e \<Rightarrow> Inl e)"

subsection \<open>GameServer\<close>

record game_server =
  server_id :: string
  game_name :: string
  host_profile :: "int option"
  ip_address :: string
  port :: int
  max_players :: int
  current_players :: int
  registered_at :: datetime
  last_heartbeat :: datetime

definition HEARTBEAT_TIMEOUT_MINUTES :: int where
  "HEARTBEAT_TIMEOUT_MINUTES = 2"

text \<open>
  \<^verbatim>\<open>GameServer.is_online\<close>:
  \<^verbatim>\<open>threshold = timezone.now() - timedelta(minutes=2); return self.last_heartbeat > threshold\<close>
\<close>

definition GameServer_is_online :: "datetime \<Rightarrow> game_server \<Rightarrow> bool" where
  "GameServer_is_online now s =
     (let threshold = now - timedelta_minutes 2 in last_heartbeat s > threshold)"

text \<open>
  \<^verbatim>\<open>DatabaseManager.get_game_servers\<close>. The argument is \<^verbatim>\<open>Optional[str]\<close> and the test is
  \<^verbatim>\<open>if game_name:\<close>, which \<^verbatim>\<open>None\<close> and the empty string both fail. \<^verbatim>\<open>list(qs)\<close> comes in
  the model's \<^verbatim>\<open>ordering = ['-last_heartbeat']\<close>; the database leaves the order of equal
  heartbeats open, here they keep the order of the table.
\<close>

definition get_game_servers :: "datetime \<Rightarrow> game_server list \<Rightarrow> string option \<Rightarrow> game_server list" where
  "get_game_servers now servers name =
     (let threshold = now - timedelta_minutes HEARTBEAT_TIMEOUT_MINUTES;
          qs = filter (\<lambda>s. last_heartbeat s > threshold) servers;
          qs' = (case name of
                   None \<Rightarrow> qs
                 | Some g \<Rightarrow> if g \<noteq> [] then filter (\<lambda>s. game_name s = g) qs else qs)
      in sort_key (\<lambda>s. - last_heartbeat s) qs')"

subsection \<open>NatNeg\<close>





subsection \<open>Profile\<close>

text \<open>
  The columns the manager's methods read or write; the other columns of \<^verbatim>\<open>Profile\<close>
  (password, location, personal data) are passed through untouched.
\<close>

record profile =
  profile_id :: int
  user_id :: string
  game_id :: string
  gs_broadcast_code :: string
  uniquenick :: string
  cfc :: string

text \<open>
  \<^verbatim>\<open>dwc_admin/friendcode.py\<close> is not among the sources: \<^verbatim>\<open>generate_friend_code\<close> and
  \<^verbatim>\<open>format_friend_code\<close> are parameters \<open>gen\<close> and \<open>fmt\<close> of what calls them, with
  \<open>None\<close> for a call that raises.

  \<^verbatim>\<open>Profile.friend_code\<close>:
  \<^verbatim>\<open>game_code = self.gs_broadcast_code if self.gs_broadcast_code else self.game_id\<close>,
  then \<^verbatim>\<open>format_friend_code(generate_friend_code(self.profile_id, game_code))\<close>, and
  \<^verbatim>\<open>"N/A"\<close> on any exception.
\<close>

definition friend_code ::
  "(int \<Rightarrow> string \<Rightarrow> 'fc option) \<Rightarrow> ('fc \<Rightarrow> string option) \<Rightarrow> profile \<Rightarrow> string" where
  "friend_code gen fmt p =
     (let game_code = (if gs_broadcast_code p \<noteq> [] then gs_broadcast_code p else game_id p)
      in case Option.bind (gen (profile_id p) game_code) fmt of
           Some code \<Rightarrow> code
         | None \<Rightarrow> ''N/A'')"

text \<open>
  \<^verbatim>\<open>DatabaseManager.get_profile_by_id\<close> and \<^verbatim>\<open>get_profile_by_uniquenick\<close>:
  \<^verbatim>\<open>try: return Profile.objects.get(...)\<close>, \<^verbatim>\<open>except Profile.DoesNotExist: return None\<close>.
\<close>

definition get_profile_by_id :: "profile list \<Rightarrow> int \<Rightarrow> error + profile option" where
  "get_profile_by_id profiles pid =
     (case objects_get (\<lambda>r. profile_id r = pid) profiles of
        Inr r \<Rightarrow> Inr (Some r)
      | Inl DoesNotExist \<Rightarrow> Inr None
      | Inl e \<Rightarrow> Inl e)"

definition get_profile_by_uniquenick :: "profile list \<Rightarrow> string \<Rightarrow> error + profile option" where
  "get_profile_by_uniquenick profiles nick =
     (case objects_get (\<lambda>r. uniquenick r = nick) profiles of
        Inr r \<Rightarrow> Inr (Some r)
      | Inl DoesNotExist \<Rightarrow> Inr None
      | Inl e \<Rightarrow> Inl e)"

text \<open>\<^verbatim>\<open>profile.save(update_fields=['cfc'])\<close>: the row with that primary key gets the code.\<close>

definition save_cfc :: "profile \<Rightarrow> profile list \<Rightarrow> profile list" where
  "save_cfc p profiles =
     map (\<lambda>r. if profile_id r = profile_id p then r\<lparr>cfc := cfc p\<rparr> else r) profiles"

text \<open>
  \<^verbatim>\<open>DatabaseManager.get_or_create_profile\<close>. \<open>kwargs\<close> is the row the keyword arguments
  describe over the model's defaults, \<open>new_id\<close> the key the \<^verbatim>\<open>BigAutoField\<close> gives a new
  row. The body runs in \<^verbatim>\<open>transaction.atomic()\<close>: an exception leaves the table as it was.
  The code is always generated from \<^verbatim>\<open>game_id\<close>.
\<close>

definition get_or_create_profile ::
  "(int \<Rightarrow> string \<Rightarrow> 'fc option) \<Rightarrow> ('fc \<Rightarrow> string option) \<Rightarrow> int \<Rightarrow> profile list
     \<Rightarrow> string \<Rightarrow> string \<Rightarrow> profile \<Rightarrow> (error + profile) \<times> profile list" where
  "get_or_create_profile gen fmt new_id profiles uid gid kwargs =
     (case get_or_create (\<lambda>r. user_id r = uid \<and> game_id r = gid)
             (kwargs\<lparr>profile_id := new_id, user_id := uid, game_id := gid\<rparr>) profiles of
        (Inl e, _) \<Rightarrow> (Inl e, profiles)
      | (Inr (p, created), profiles') \<Rightarrow>
          if created then
            (case Option.bind (gen (profile_id p) gid) fmt of
               None \<Rightarrow> (Inl CodecError, profiles)
             | Some code \<Rightarrow> (Inr (p\<lparr>cfc := code\<rparr>), save_cfc (p\<lparr>cfc := code\<rparr>) profiles'))
          else (Inr p, profiles'))"

text \<open>
  \<^verbatim>\<open>DatabaseManager.create_profile\<close>: \<^verbatim>\<open>Profile.objects.create\<close> raises
  \<^verbatim>\<open>IntegrityError\<close> when the pair (user id, game id) is taken
  (\<^verbatim>\<open>unique_together\<close>). There is no transaction around the body: the inserted row stays
  when the code cannot be generated.
\<close>

definition create_profile ::
  "(int \<Rightarrow> string \<Rightarrow> 'fc option) \<Rightarrow> ('fc \<Rightarrow> string option) \<Rightarrow> int \<Rightarrow> profile list
     \<Rightarrow> string \<Rightarrow> string \<Rightarrow> profile \<Rightarrow> (error + profile) \<times> profile list" where
  "create_profile gen fmt new_id profiles uid gid kwargs =
     (if filter (\<lambda>r. user_id r = uid \<and> game_id r = gid) profiles \<noteq> []
      then (Inl IntegrityError, profiles)
      else
        (let p = kwargs\<lparr>profile_id := new_id, user_id := uid, game_id := gid\<rparr>;
             profiles' = profiles @ [p]
         in case Option.bind (gen (profile_id p) gid) fmt of
              None \<Rightarrow> (Inl CodecError, profiles')
            | Some code \<Rightarrow> (Inr (p\<lparr>cfc := code\<rparr>), save_cfc (p\<lparr>cfc := code\<rparr>) profiles')))"

text \<open>
  A codec to evaluate examples with (the theorems below hold for every codec): the raw code
  is the pair of its inputs, its display form the game code followed by as many dashes as
  the profile id counts.
\<close>

definition example_generate :: "int \<Rightarrow> string \<Rightarrow> (int \<times> string) option" where
  "example_generate pid code = Some (pid, code)"

definition example_format :: "int \<times> string \<Rightarrow> string option" where
  "example_format fc = Some (snd fc @ replicate (nat (fst fc)) CHR ''-'')"

subsection \<open>Pending\<close>

record pending =
  pending_id :: int
  pending_profile :: int
  group_id :: int
  pending_created_at :: datetime


text \<open>
  \<^verbatim>\<open>DatabaseManager.add_to_pending\<close>: \<^verbatim>\<open>Profile.objects.get(profile_id=profile_id)\<close> is
  not guarded, so its exceptions propagate before the queue is touched; then
  \<^verbatim>\<open>Pending.objects.get_or_create(profile=profile, group_id=group_id)\<close>.
\<close>

definition add_to_pending ::
  "datetime \<Rightarrow> int \<Rightarrow> profile list \<Rightarrow> pending list \<Rightarrow> int \<Rightarrow> int
     \<Rightarrow> (error + pending) \<times> pending list" where
  "add_to_pending now new_id profiles pendings pid gid =
     (case objects_get (\<lambda>r. profile_id r = pid) profiles of
        Inl e \<Rightarrow> (Inl e, pendings)
      | Inr p \<Rightarrow>
          (case get_or_create (\<lambda>r. pending_profile r = profile_id p \<and> group_id r = gid)
                  \<lparr>pending_id = new_id, pending_profile = profile_id p, group_id = gid,
                   pending_created_at = now\<rparr> pendings of
             (Inr (pending, _), pendings') \<Rightarrow> (Inr pending, pendings')
           | (Inl e, pendings') \<Rightarrow> (Inl e, pendings')))"


section \<open>Facts about the ORM layer\<close>

lemma filter_unique_key:
  "distinct (map key rows) \<Longrightarrow> r \<in> set rows \<Longrightarrow> filter (\<lambda>x. key x = key r) rows = [r]"
proof (induction rows)
  case Nil
  then show ?case by simp
next
  case (Cons a rows)
  show ?case
  proof (cases "a = r")
    case True
    from Cons.prems(1) True have "key r \<notin> key ` set rows" by simp
    then have "\<forall>x \<in> set rows. key x \<noteq> key r" by (metis imageI)
    then have "filter (\<lambda>x. key x = key r) rows = []"
      by (simp add: filter_empty_conv)
    with True show ?thesis by simp
  next
    case False
    with Cons.prems have mem: "r \<in> set rows" by simp
    with Cons.prems(1) have "key a \<noteq> key r" by auto
    with Cons.IH Cons.prems(1) mem show ?thesis by simp
  qed
qed

lemma objects_get_none:
  "\<forall>r \<in> set rows. \<not> lookup r \<Longrightarrow> objects_get lookup rows = Inl DoesNotExist"
  by (simp add: objects_get_def filter_False)

lemma objects_get_unique:
  assumes "distinct (map key rows)" and "r \<in> set rows"
  shows "objects_get (\<lambda>x. key x = key r) rows = Inr r"
  using filter_unique_key [OF assms] by (simp add: objects_get_def)

section \<open>Session liveness\<close>

text \<open>
  Claim C4. A session is active exactly when \<open>now - login_time\<close> is less than 30 minutes,
  counted from the login time it was created with: a login exactly 30 minutes old is
  inactive, one 29 minutes 59 seconds old is active.
\<close>

theorem session_is_active_iff:
  "Session_is_active now s = (now - login_time s < timedelta_minutes 30)
   \<and> \<not> Session_is_active now (s\<lparr>login_time := now - timedelta_minutes 30\<rparr>)
   \<and> Session_is_active now
       (s\<lparr>login_time := now - (timedelta_minutes 29 + timedelta_seconds 59)\<rparr>)"
  by (auto simp: Session_is_active_def timedelta_minutes_def timedelta_seconds_def)

section \<open>Generic bans\<close>

text \<open>
  Claim C5. On a table that satisfies its unique constraint on (ban type, identifier):
  when no row has the key, \<open>is_banned\<close> answers false; when a row has it, the answer is true
  exactly when the row has no expiry or \<open>now\<close> is before the expiry. So a row whose expiry
  is not after \<open>now\<close> gives false and a row without expiry gives true at every time.
\<close>

theorem is_banned_spec:
  assumes "distinct (map ban_key banned)"
  shows "((\<forall>r \<in> set banned. ban_key r \<noteq> (bt, ident)) \<longrightarrow>
            is_banned now banned bt ident = Inr False)
       \<and> (b \<in> set banned \<and> ban_key b = (bt, ident) \<longrightarrow>
            is_banned now banned bt ident
              = Inr (expires_at b = None \<or> (\<exists>e. expires_at b = Some e \<and> now < e)))
       \<and> (b \<in> set banned \<and> ban_key b = (bt, ident) \<and> expires_at b = Some e \<and> e \<le> now \<longrightarrow>
            is_banned now banned bt ident = Inr False)
       \<and> (b \<in> set banned \<and> ban_key b = (bt, ident) \<and> expires_at b = None \<longrightarrow>
            (\<forall>t. is_banned t banned bt ident = Inr True))"
proof -
  have look: "(\<lambda>x. ban_type x = bt \<and> ban_identifier x = ident) = (\<lambda>x. ban_key x = (bt, ident))"
    by (auto simp: ban_key_def)
  have miss: "(\<forall>r \<in> set banned. ban_key r \<noteq> (bt, ident)) \<longrightarrow>
           is_banned now banned bt ident = Inr False"
    by (simp add: is_banned_def look objects_get_none)
  have found: "is_banned t banned bt ident = Inr (BannedItem_is_active t b)"
    if "b \<in> set banned" and "ban_key b = (bt, ident)" for t
  proof -
    have "objects_get (\<lambda>x. ban_key x = ban_key b) banned = Inr b"
      using assms that(1) by (rule objects_get_unique)
    then show ?thesis by (simp add: is_banned_def look that(2))
  qed
  have active: "b \<in> set banned \<and> ban_key b = (bt, ident) \<longrightarrow>
           is_banned now banned bt ident
             = Inr (expires_at b = None \<or> (\<exists>e. expires_at b = Some e \<and> now < e))"
    by (auto simp: found BannedItem_is_active_def split: option.splits)
  have expired: "b \<in> set banned \<and> ban_key b = (bt, ident) \<and> expires_at b = Some e \<and> e \<le> now \<longrightarrow>
           is_banned now banned bt ident = Inr False"
    by (auto simp: found BannedItem_is_active_def)
  have permanent: "b \<in> set banned \<and> ban_key b = (bt, ident) \<and> expires_at b = None \<longrightarrow>
           (\<forall>t. is_banned t banned bt ident = Inr True)"
    by (auto simp: found BannedItem_is_active_def)
  from miss active expired permanent show ?thesis by blast
qed

theorem is_banned_spec_witness:
  "distinct (map ban_key
      [\<lparr>ban_type = ''ip'', ban_identifier = ''1.2.3.4'', reason = '''', banned_at = 0,
        expires_at = Some 50, banned_by = ''''\<rparr>,
       \<lparr>ban_type = ''mac'', ban_identifier = ''00:09:bf:11:22:33'', reason = '''',
        banned_at = 0, expires_at = None, banned_by = ''''\<rparr>])
   \<and> is_banned 100
      [\<lparr>ban_type = ''ip'', ban_identifier = ''1.2.3.4'', reason = '''', banned_at = 0,
        expires_at = Some 50, banned_by = ''''\<rparr>,
       \<lparr>ban_type = ''mac'', ban_identifier = ''00:09:bf:11:22:33'', reason = '''',
        banned_at = 0, expires_at = None, banned_by = ''''\<rparr>] ''ip'' ''1.2.3.4'' = Inr False
   \<and> is_banned 100
      [\<lparr>ban_type = ''ip'', ban_identifier = ''1.2.3.4'', reason = '''', banned_at = 0,
        expires_at = Some 50, banned_by = ''''\<rparr>,
       \<lparr>ban_type = ''mac'', ban_identifier = ''00:09:bf:11:22:33'', reason = '''',
        banned_at = 0, expires_at = None, banned_by = ''''\<rparr>] ''mac'' ''00:09:bf:11:22:33''
       = Inr True
   \<and> is_banned 100
      [\<lparr>ban_type = ''ip'', ban_identifier = ''1.2.3.4'', reason = '''', banned_at = 0,
        expires_at = Some 50, banned_by = ''''\<rparr>,
       \<lparr>ban_type = ''mac'', ban_identifier = ''00:09:bf:11:22:33'', reason = '''',
        banned_at = 0, expires_at = None, banned_by = ''''\<rparr>] ''ip'' ''5.6.7.8'' = Inr False"
proof -
  let ?a = "\<lparr>ban_type = ''ip'', ban_identifier = ''1.2.3.4'', reason = '''', banned_at = 0,
        expires_at = Some 50, banned_by = ''''\<rparr>"
  let ?b = "\<lparr>ban_type = ''mac'', ban_identifier = ''00:09:bf:11:22:33'', reason = '''',
        banned_at = 0, expires_at = None, banned_by = ''''\<rparr>"
  have d: "distinct (map ban_key [?a, ?b])" by (simp add: ban_key_def)
  have "is_banned 100 [?a, ?b] ''ip'' ''1.2.3.4'' = Inr False"
    using is_banned_spec [OF d, of "''ip''" "''1.2.3.4''" 100 ?a 50]
    by (simp add: ban_key_def)
  moreover have "is_banned 100 [?a, ?b] ''mac'' ''00:09:bf:11:22:33'' = Inr True"
    using is_banned_spec [OF d, of "''mac''" "''00:09:bf:11:22:33''" 100 ?b]
    by (simp add: ban_key_def)
  moreover have "is_banned 100 [?a, ?b] ''ip'' ''5.6.7.8'' = Inr False"
    using is_banned_spec [OF d, of "''ip''" "''5.6.7.8''" 100]
    by (simp add: ban_key_def)
  ultimately show ?thesis using d by simp
qed

section \<open>Console check\<close>

text \<open>
  Claim C10. For a MAC address no console is registered under, \<open>is_console_enabled\<close>
  answers false and raises nothing; for a registered console (MAC addresses are unique)
  the answer is the console's \<open>enabled\<close> flag.
\<close>

theorem is_console_enabled_spec:
  "((\<forall>c \<in> set consoles. mac_address c \<noteq> mac) \<longrightarrow>
      is_console_enabled consoles mac = Inr False)
   \<and> (distinct (map mac_address consoles) \<and> c \<in> set consoles \<longrightarrow>
      is_console_enabled consoles (mac_address c) = Inr (enabled c))"
proof (intro conjI impI)
  assume "\<forall>c \<in> set consoles. mac_address c \<noteq> mac"
  then show "is_console_enabled consoles mac = Inr False"
    by (simp add: is_console_enabled_def objects_get_none)
next
  assume "distinct (map mac_address consoles) \<and> c \<in> set consoles"
  then have "objects_get (\<lambda>x. mac_address x = mac_address c) consoles = Inr c"
    by (simp add: objects_get_unique)
  then show "is_console_enabled consoles (mac_address c) = Inr (enabled c)"
    by (simp add: is_console_enabled_def)
qed

theorem is_console_enabled_spec_witness:
  "''00:00:00:00:00:00'' \<notin> set (map mac_address [\<lparr>mac_address = ''00:09:bf:11:22:33'', console_user_id = ''123'',
        device_name = '''', platform = ''DS'', enabled = True, console_registered_at = 0,
        last_seen = 0\<rparr>])
   \<and> is_console_enabled [\<lparr>mac_address = ''00:09:bf:11:22:33'', console_user_id = ''123'',
        device_name = '''', platform = ''DS'', enabled = True, console_registered_at = 0,
        last_seen = 0\<rparr>] ''00:00:00:00:00:00'' = Inr False
   \<and> is_console_enabled [\<lparr>mac_address = ''00:09:bf:11:22:33'', console_user_id = ''123'',
        device_name = '''', platform = ''DS'', enabled = True, console_registered_at = 0,
        last_seen = 0\<rparr>] ''00:09:bf:11:22:33'' = Inr True"
proof -
  let ?c = "\<lparr>mac_address = ''00:09:bf:11:22:33'', console_user_id = ''123'',
        device_name = '''', platform = ''DS'', enabled = True, console_registered_at = 0,
        last_seen = 0\<rparr>"
  have "is_console_enabled [?c] ''00:00:00:00:00:00'' = Inr False"
    using is_console_enabled_spec [of "[?c]" "''00:00:00:00:00:00''"] by simp
  moreover have "is_console_enabled [?c] ''00:09:bf:11:22:33'' = Inr True"
    using is_console_enabled_spec [of "[?c]" _ ?c] by simp
  ultimately show ?thesis by simp
qed

section \<open>Profile lookups\<close>

text \<open>
  Claim C3, as amended. For a profile id (a unique nick) no profile is stored under,
  \<open>get_profile_by_id\<close> (\<open>get_profile_by_uniquenick\<close>) returns \<open>None\<close>: the code catches
  \<^verbatim>\<open>Profile.DoesNotExist\<close> and returns the sentinel, it raises no not-found error.
\<close>

theorem profile_lookup_miss_is_None:
  "((\<forall>r \<in> set profiles. profile_id r \<noteq> pid) \<longrightarrow> get_profile_by_id profiles pid = Inr None)
   \<and> ((\<forall>r \<in> set profiles. uniquenick r \<noteq> nick) \<longrightarrow>
        get_profile_by_uniquenick profiles nick = Inr None)"
  by (simp add: get_profile_by_id_def get_profile_by_uniquenick_def objects_get_none)

theorem profile_lookup_miss_is_None_witness:
  "2 \<notin> set (map profile_id [\<lparr>profile_id = 1, user_id = ''123'', game_id = ''ADAJ'',
        gs_broadcast_code = '''', uniquenick = ''ash'', cfc = ''''\<rparr>])
   \<and> get_profile_by_id [\<lparr>profile_id = 1, user_id = ''123'', game_id = ''ADAJ'',
        gs_broadcast_code = '''', uniquenick = ''ash'', cfc = ''''\<rparr>] 2 = Inr None
   \<and> ''gary'' \<notin> set (map uniquenick [\<lparr>profile_id = 1, user_id = ''123'', game_id = ''ADAJ'',
        gs_broadcast_code = '''', uniquenick = ''ash'', cfc = ''''\<rparr>])
   \<and> get_profile_by_uniquenick [\<lparr>profile_id = 1, user_id = ''123'', game_id = ''ADAJ'',
        gs_broadcast_code = '''', uniquenick = ''ash'', cfc = ''''\<rparr>] ''gary'' = Inr None"
  using profile_lookup_miss_is_None [of "[\<lparr>profile_id = 1, user_id = ''123'',
        game_id = ''ADAJ'', gs_broadcast_code = '''', uniquenick = ''ash'', cfc = ''''\<rparr>]"
        2 "''gary''"]
  by simp

text \<open>
  The claim as the specification states it fails on the empty table: the lookups return
  \<open>None\<close> there, not the error \<open>DoesNotExist\<close>.
\<close>

theorem profile_lookup_not_found_counterexample:
  "get_profile_by_id [] 1 = Inr None
   \<and> get_profile_by_id [] 1 \<noteq> Inl DoesNotExist
   \<and> get_profile_by_uniquenick [] ''ash'' = Inr None
   \<and> get_profile_by_uniquenick [] ''ash'' \<noteq> Inl DoesNotExist"
  by (simp add: get_profile_by_id_def get_profile_by_uniquenick_def objects_get_def)

section \<open>Matchmaking queue\<close>

lemma get_or_create_found:
  assumes "distinct (map key rows)" and "r \<in> set rows"
  shows "get_or_create (\<lambda>x. key x = key r) new_row rows = (Inr (r, False), rows)"
  using objects_get_unique [OF assms] by (simp add: get_or_create_def)

lemma get_or_create_missing:
  assumes "\<forall>x \<in> set rows. \<not> lookup x"
  shows "get_or_create lookup new_row rows = (Inr (new_row, True), rows @ [new_row])"
  using objects_get_none [OF assms] by (simp add: get_or_create_def)




text \<open>
  Claim C9. When no profile is stored under the profile id, \<open>add_to_pending\<close> fails with
  \<open>DoesNotExist\<close> and the queue it leaves is the queue it found: no entry is created.
\<close>

theorem add_to_pending_unknown_profile:
  "(\<forall>r \<in> set profiles. profile_id r \<noteq> pid) \<Longrightarrow>
     add_to_pending now new_id profiles pendings pid gid = (Inl DoesNotExist, pendings)"
  by (simp add: add_to_pending_def objects_get_none)

theorem add_to_pending_unknown_profile_witness:
  "6 \<notin> set (map profile_id [\<lparr>profile_id = 5, user_id = ''123'', game_id = ''ADAJ'',
        gs_broadcast_code = '''', uniquenick = '''', cfc = ''''\<rparr>])
   \<and> add_to_pending 1000 1
        [\<lparr>profile_id = 5, user_id = ''123'', game_id = ''ADAJ'',
          gs_broadcast_code = '''', uniquenick = '''', cfc = ''''\<rparr>]
        [\<lparr>pending_id = 0, pending_profile = 5, group_id = 9, pending_created_at = 10\<rparr>] 6 9
      = (Inl DoesNotExist,
         [\<lparr>pending_id = 0, pending_profile = 5, group_id = 9, pending_created_at = 10\<rparr>])"
  using add_to_pending_unknown_profile [of "[\<lparr>profile_id = 5, user_id = ''123'',
        game_id = ''ADAJ'', gs_broadcast_code = '''', uniquenick = '''', cfc = ''''\<rparr>]" 6
        1000 1 "[\<lparr>pending_id = 0, pending_profile = 5, group_id = 9,
        pending_created_at = 10\<rparr>]" 9]
  by simp



section \<open>NAT negotiation\<close>








section \<open>Game server list\<close>

text \<open>
  Claim C8, as amended. \<open>get_game_servers\<close> returns exactly the registered servers with
  \<open>now - last_heartbeat\<close> less than 2 minutes (so a heartbeat exactly 2 minutes old is left
  out), which is what \<open>is_online\<close> tests; they are restricted to the game name when a
  non-empty one is given, and not restricted when the name is absent or the empty string.
\<close>

theorem get_game_servers_spec:
  "mset (get_game_servers now servers name)
     = mset (filter (\<lambda>s. now - last_heartbeat s < timedelta_minutes 2
                        \<and> (case name of None \<Rightarrow> True | Some g \<Rightarrow> g = [] \<or> game_name s = g))
               servers)
   \<and> GameServer_is_online now s = (now - last_heartbeat s < timedelta_minutes 2)
   \<and> s\<lparr>last_heartbeat := now - timedelta_minutes 2\<rparr> \<notin> set (get_game_servers now servers name)"
proof -
  have pred: "(now - timedelta_minutes 2 < last_heartbeat x)
                = (now - last_heartbeat x < timedelta_minutes 2)" for x :: game_server
    by auto
  have m: "mset (get_game_servers now servers name)
     = mset (filter (\<lambda>s. now - last_heartbeat s < timedelta_minutes 2
                        \<and> (case name of None \<Rightarrow> True | Some g \<Rightarrow> g = [] \<or> game_name s = g))
               servers)"
  proof (cases name)
    case None
    then show ?thesis
      by (simp add: get_game_servers_def HEARTBEAT_TIMEOUT_MINUTES_def pred)
  next
    case (Some g)
    then show ?thesis
      by (cases "g = []")
         (simp_all add: get_game_servers_def HEARTBEAT_TIMEOUT_MINUTES_def pred conj_commute)
  qed
  have o: "GameServer_is_online now s = (now - last_heartbeat s < timedelta_minutes 2)"
    by (auto simp: GameServer_is_online_def)
  have "x \<in> set (get_game_servers now servers name)
          \<Longrightarrow> now - last_heartbeat x < timedelta_minutes 2" for x
  proof -
    assume "x \<in> set (get_game_servers now servers name)"
    then have "x \<in># mset (get_game_servers now servers name)" by simp
    then show ?thesis unfolding m by simp
  qed
  then have b: "s\<lparr>last_heartbeat := now - timedelta_minutes 2\<rparr>
                  \<notin> set (get_game_servers now servers name)"
    by fastforce
  from m o b show ?thesis by simp
qed

text \<open>
  The claim as the specification states it fails when the empty string is supplied as the
  game name: the result is not restricted to servers of that name.
\<close>

theorem get_game_servers_empty_name_counterexample:
  "get_game_servers 200000000 
     [\<lparr>server_id = ''s1'', game_name = ''mariokartds'', host_profile = None,
       ip_address = ''10.0.0.1'', port = 27900, max_players = 4, current_players = 1,
       registered_at = 0, last_heartbeat = 199000000\<rparr>] (Some '''')
   = [\<lparr>server_id = ''s1'', game_name = ''mariokartds'', host_profile = None,
       ip_address = ''10.0.0.1'', port = 27900, max_players = 4, current_players = 1,
       registered_at = 0, last_heartbeat = 199000000\<rparr>]
   \<and> filter (\<lambda>s. game_name s = '''')
       [\<lparr>server_id = ''s1'', game_name = ''mariokartds'', host_profile = None,
       ip_address = ''10.0.0.1'', port = 27900, max_players = 4, current_players = 1,
       registered_at = 0, last_heartbeat = 199000000\<rparr>] = []"
  by (simp add: get_game_servers_def HEARTBEAT_TIMEOUT_MINUTES_def timedelta_minutes_def)

section \<open>Cached friend code\<close>

lemma save_cfc_appended:
  "profile_id p = profile_id q \<Longrightarrow> q\<lparr>cfc := cfc p\<rparr> \<in> set (save_cfc p (profiles @ [q]))"
  by (simp add: save_cfc_def)

lemma create_profile_new:
  assumes "\<forall>r \<in> set profiles. \<not> (user_id r = uid \<and> game_id r = gid)"
    and "Option.bind (gen new_id gid) fmt = Some code"
  shows "create_profile gen fmt new_id profiles uid gid kwargs
           = (Inr (kwargs\<lparr>profile_id := new_id, user_id := uid, game_id := gid, cfc := code\<rparr>),
              save_cfc (kwargs\<lparr>profile_id := new_id, user_id := uid, game_id := gid, cfc := code\<rparr>)
                (profiles @ [kwargs\<lparr>profile_id := new_id, user_id := uid, game_id := gid\<rparr>]))"
proof -
  have "filter (\<lambda>r. user_id r = uid \<and> game_id r = gid) profiles = []"
    using assms(1) by (simp add: filter_empty_conv)
  then show ?thesis
    by (simp add: create_profile_def Let_def assms(2))
qed

lemma get_or_create_profile_new:
  assumes "\<forall>r \<in> set profiles. \<not> (user_id r = uid \<and> game_id r = gid)"
    and "Option.bind (gen new_id gid) fmt = Some code"
  shows "get_or_create_profile gen fmt new_id profiles uid gid kwargs
           = (Inr (kwargs\<lparr>profile_id := new_id, user_id := uid, game_id := gid, cfc := code\<rparr>),
              save_cfc (kwargs\<lparr>profile_id := new_id, user_id := uid, game_id := gid, cfc := code\<rparr>)
                (profiles @ [kwargs\<lparr>profile_id := new_id, user_id := uid, game_id := gid\<rparr>]))"
  by (simp add: get_or_create_profile_def get_or_create_missing [OF assms(1)] assms(2))

lemma get_or_create_profile_existing:
  assumes "distinct (map (\<lambda>r. (user_id r, game_id r)) profiles)" and "r \<in> set profiles"
  shows "get_or_create_profile gen fmt new_id profiles (user_id r) (game_id r) kwargs
           = (Inr r, profiles)"
proof -
  have "get_or_create (\<lambda>x. (user_id x, game_id x) = (user_id r, game_id r)) new_row profiles
          = (Inr (r, False), profiles)" for new_row
    using assms by (rule get_or_create_found)
  then show ?thesis
    by (simp add: get_or_create_profile_def)
qed

text \<open>
  Claim C1. The failing input: a profile created for user \<open>123\<close> and game \<open>ADAJ\<close> with the
  broadcast code \<open>ADAJ12xxx3\<close>. For every codec, \<open>create_profile\<close> and
  \<open>get_or_create_profile\<close> cache the code generated from the game id \<open>ADAJ\<close>, while
  \<open>friend_code\<close> of the profile they return is generated from the broadcast code; with
  a codec that tells the two apart the cached code and the property differ.
\<close>

theorem cached_code_ignores_broadcast_code:
  "fst (create_profile gen fmt 1 [] ''123'' ''ADAJ''
          \<lparr>profile_id = 0, user_id = '''', game_id = '''', gs_broadcast_code = ''ADAJ12xxx3'',
           uniquenick = '''', cfc = ''''\<rparr>)
     = (case Option.bind (gen 1 ''ADAJ'') fmt of
          None \<Rightarrow> Inl CodecError
        | Some code \<Rightarrow>
            Inr \<lparr>profile_id = 1, user_id = ''123'', game_id = ''ADAJ'',
                 gs_broadcast_code = ''ADAJ12xxx3'', uniquenick = '''', cfc = code\<rparr>)
   \<and> fst (get_or_create_profile gen fmt 1 [] ''123'' ''ADAJ''
          \<lparr>profile_id = 0, user_id = '''', game_id = '''', gs_broadcast_code = ''ADAJ12xxx3'',
           uniquenick = '''', cfc = ''''\<rparr>)
     = (case Option.bind (gen 1 ''ADAJ'') fmt of
          None \<Rightarrow> Inl CodecError
        | Some code \<Rightarrow>
            Inr \<lparr>profile_id = 1, user_id = ''123'', game_id = ''ADAJ'',
                 gs_broadcast_code = ''ADAJ12xxx3'', uniquenick = '''', cfc = code\<rparr>)
   \<and> friend_code gen fmt
        \<lparr>profile_id = 1, user_id = ''123'', game_id = ''ADAJ'',
         gs_broadcast_code = ''ADAJ12xxx3'', uniquenick = '''', cfc = cached\<rparr>
     = (case Option.bind (gen 1 ''ADAJ12xxx3'') fmt of Some code \<Rightarrow> code | None \<Rightarrow> ''N/A'')
   \<and> fst (create_profile example_generate example_format 1 [] ''123'' ''ADAJ''
          \<lparr>profile_id = 0, user_id = '''', game_id = '''', gs_broadcast_code = ''ADAJ12xxx3'',
           uniquenick = '''', cfc = ''''\<rparr>)
     = Inr \<lparr>profile_id = 1, user_id = ''123'', game_id = ''ADAJ'',
            gs_broadcast_code = ''ADAJ12xxx3'', uniquenick = '''', cfc = ''ADAJ-''\<rparr>
   \<and> friend_code example_generate example_format
        \<lparr>profile_id = 1, user_id = ''123'', game_id = ''ADAJ'',
         gs_broadcast_code = ''ADAJ12xxx3'', uniquenick = '''', cfc = ''ADAJ-''\<rparr>
     = ''ADAJ12xxx3-''"
  by (simp add: create_profile_def get_or_create_profile_def get_or_create_def objects_get_def
        friend_code_def save_cfc_def example_generate_def example_format_def Let_def
        split: option.splits)

section \<open>Friend code at creation\<close>

text \<open>
  Claim C2, as amended. When the pair (user id, game id) is free and the codec returns a
  code, \<open>create_profile\<close> and \<open>get_or_create_profile\<close> return the new profile with that
  code in \<open>cfc\<close>, and the returned row is in the table they leave. When the pair is taken,
  \<open>get_or_create_profile\<close> returns the stored profile as it is and leaves the table as it
  is, whatever the stored \<open>cfc\<close>.
\<close>

theorem created_profile_has_cached_code:
  "((\<forall>r \<in> set profiles. \<not> (user_id r = uid \<and> game_id r = gid))
      \<and> Option.bind (gen new_id gid) fmt = Some code \<longrightarrow>
        fst (create_profile gen fmt new_id profiles uid gid kwargs)
          = Inr (kwargs\<lparr>profile_id := new_id, user_id := uid, game_id := gid, cfc := code\<rparr>)
      \<and> kwargs\<lparr>profile_id := new_id, user_id := uid, game_id := gid, cfc := code\<rparr>
          \<in> set (snd (create_profile gen fmt new_id profiles uid gid kwargs))
      \<and> fst (get_or_create_profile gen fmt new_id profiles uid gid kwargs)
          = Inr (kwargs\<lparr>profile_id := new_id, user_id := uid, game_id := gid, cfc := code\<rparr>)
      \<and> kwargs\<lparr>profile_id := new_id, user_id := uid, game_id := gid, cfc := code\<rparr>
          \<in> set (snd (get_or_create_profile gen fmt new_id profiles uid gid kwargs)))
   \<and> (distinct (map (\<lambda>r. (user_id r, game_id r)) profiles) \<and> p \<in> set profiles \<longrightarrow>
        get_or_create_profile gen fmt new_id profiles (user_id p) (game_id p) kwargs
          = (Inr p, profiles))"
proof (intro conjI impI)
  assume "distinct (map (\<lambda>r. (user_id r, game_id r)) profiles) \<and> p \<in> set profiles"
  then show "get_or_create_profile gen fmt new_id profiles (user_id p) (game_id p) kwargs
               = (Inr p, profiles)"
    by (simp add: get_or_create_profile_existing)
next
  let ?p = "kwargs\<lparr>profile_id := new_id, user_id := uid, game_id := gid, cfc := code\<rparr>"
  let ?q = "kwargs\<lparr>profile_id := new_id, user_id := uid, game_id := gid\<rparr>"
  assume h: "(\<forall>r \<in> set profiles. \<not> (user_id r = uid \<and> game_id r = gid))
               \<and> Option.bind (gen new_id gid) fmt = Some code"
  then have free: "\<forall>r \<in> set profiles. \<not> (user_id r = uid \<and> game_id r = gid)"
    and code: "Option.bind (gen new_id gid) fmt = Some code" by simp_all
  have stored: "?p \<in> set (save_cfc ?p (profiles @ [?q]))"
    using save_cfc_appended [of ?p ?q profiles] by simp
  have cp: "create_profile gen fmt new_id profiles uid gid kwargs
              = (Inr ?p, save_cfc ?p (profiles @ [?q]))"
    using free code by (rule create_profile_new)
  have gp: "get_or_create_profile gen fmt new_id profiles uid gid kwargs
              = (Inr ?p, save_cfc ?p (profiles @ [?q]))"
    using free code by (rule get_or_create_profile_new)
  show "fst (create_profile gen fmt new_id profiles uid gid kwargs) = Inr ?p"
    by (simp add: cp)
  show "?p \<in> set (snd (create_profile gen fmt new_id profiles uid gid kwargs))"
    using stored by (simp add: cp)
  show "fst (get_or_create_profile gen fmt new_id profiles uid gid kwargs) = Inr ?p"
    by (simp add: gp)
  show "?p \<in> set (snd (get_or_create_profile gen fmt new_id profiles uid gid kwargs))"
    using stored by (simp add: gp)
qed

theorem created_profile_has_cached_code_witness:
  "Option.bind (example_generate 2 ''ADAJ'') example_format = Some ''ADAJ--''
   \<and> fst (create_profile example_generate example_format 2 [] ''123'' ''ADAJ''
        \<lparr>profile_id = 0, user_id = '''', game_id = '''', gs_broadcast_code = '''',
         uniquenick = '''', cfc = ''''\<rparr>)
      = Inr \<lparr>profile_id = 2, user_id = ''123'', game_id = ''ADAJ'', gs_broadcast_code = '''',
             uniquenick = '''', cfc = ''ADAJ--''\<rparr>
   \<and> fst (get_or_create_profile example_generate example_format 2 [] ''123'' ''ADAJ''
        \<lparr>profile_id = 0, user_id = '''', game_id = '''', gs_broadcast_code = '''',
         uniquenick = '''', cfc = ''''\<rparr>)
      = Inr \<lparr>profile_id = 2, user_id = ''123'', game_id = ''ADAJ'', gs_broadcast_code = '''',
             uniquenick = '''', cfc = ''ADAJ--''\<rparr>
   \<and> get_or_create_profile example_generate example_format 3
        [\<lparr>profile_id = 2, user_id = ''123'', game_id = ''ADAJ'', gs_broadcast_code = '''',
          uniquenick = '''', cfc = ''ADAJ--''\<rparr>] ''123'' ''ADAJ''
        \<lparr>profile_id = 0, user_id = '''', game_id = '''', gs_broadcast_code = '''',
         uniquenick = '''', cfc = ''''\<rparr>
      = (Inr \<lparr>profile_id = 2, user_id = ''123'', game_id = ''ADAJ'', gs_broadcast_code = '''',
              uniquenick = '''', cfc = ''ADAJ--''\<rparr>,
         [\<lparr>profile_id = 2, user_id = ''123'', game_id = ''ADAJ'', gs_broadcast_code = '''',
           uniquenick = '''', cfc = ''ADAJ--''\<rparr>])"
proof -
  let ?kw = "\<lparr>profile_id = 0, user_id = '''', game_id = '''', gs_broadcast_code = '''',
         uniquenick = '''', cfc = ''''\<rparr>"
  let ?p = "\<lparr>profile_id = 2, user_id = ''123'', game_id = ''ADAJ'', gs_broadcast_code = '''',
             uniquenick = '''', cfc = ''ADAJ--''\<rparr>"
  have code: "Option.bind (example_generate 2 ''ADAJ'') example_format = Some ''ADAJ--''"
    by (simp add: example_generate_def example_format_def eval_nat_numeral)
  have new: "fst (create_profile example_generate example_format 2 [] ''123'' ''ADAJ'' ?kw) = Inr ?p
     \<and> fst (get_or_create_profile example_generate example_format 2 [] ''123'' ''ADAJ'' ?kw) = Inr ?p"
    using created_profile_has_cached_code
      [of "[]" "''123''" "''ADAJ''" example_generate 2 example_format "''ADAJ--''" ?kw] code
    by simp
  have old: "get_or_create_profile example_generate example_format 3 [?p] ''123'' ''ADAJ'' ?kw
               = (Inr ?p, [?p])"
    using created_profile_has_cached_code
      [of "[?p]" _ _ example_generate 3 example_format _ ?kw ?p]
    by simp
  from code new old show ?thesis by simp
qed

text \<open>
  The claim as the specification states it fails for a stored profile whose \<open>cfc\<close> is
  empty (the rows the \<^verbatim>\<open>create_testdata\<close> command inserts with
  \<^verbatim>\<open>Profile.objects.create\<close> are such rows): \<open>get_or_create_profile\<close> returns it as it is.
\<close>

theorem get_or_create_profile_blank_cfc_counterexample:
  "get_or_create_profile example_generate example_format 2
     [\<lparr>profile_id = 1, user_id = ''123'', game_id = ''ADAJ'',
       gs_broadcast_code = ''ADAJ12xxx3'', uniquenick = '''', cfc = ''''\<rparr>] ''123'' ''ADAJ''
     \<lparr>profile_id = 0, user_id = '''', game_id = '''', gs_broadcast_code = '''',
      uniquenick = '''', cfc = ''''\<rparr>
   = (Inr \<lparr>profile_id = 1, user_id = ''123'', game_id = ''ADAJ'',
           gs_broadcast_code = ''ADAJ12xxx3'', uniquenick = '''', cfc = ''''\<rparr>,
      [\<lparr>profile_id = 1, user_id = ''123'', game_id = ''ADAJ'',
        gs_broadcast_code = ''ADAJ12xxx3'', uniquenick = '''', cfc = ''''\<rparr>])
   \<and> cfc \<lparr>profile_id = 1, user_id = ''123'', game_id = ''ADAJ'',
           gs_broadcast_code = ''ADAJ12xxx3'', uniquenick = '''', cfc = ''''\<rparr> = ''''"
  by (simp add: get_or_create_profile_def get_or_create_def objects_get_def)

end
